theory Spec2Isabelle
  imports Main "HOL-Library.DAList"
begin

section \<open>Background script of the Bing results scraper\<close>

text \<open>
  The model follows \<^verbatim>\<open>src/tools/Bing Results Scraper/background.js\<close>.
  Everything the script obtains from the browser (the settlement of \<^verbatim>\<open>fetch\<close>, the
  clock \<^verbatim>\<open>Date.now()\<close>, the host name computed by \<^verbatim>\<open>new URL(url).hostname\<close>) is an
  explicit argument of the function that uses it. Console output is left out.
\<close>

subsection \<open>Constants\<close>

definition CONTENT_TIMEOUT :: int where
  "CONTENT_TIMEOUT = 15000"

definition RATE_LIMIT_MS :: int where
  "RATE_LIMIT_MS = 1000"

subsection \<open>Strings\<close>

text \<open>\<^verbatim>\<open>s.includes(sub)\<close>: some suffix of \<open>s\<close> starts with \<open>sub\<close>.\<close>

fun includes_str :: "string \<Rightarrow> string \<Rightarrow> bool" where
  "includes_str [] sub = (sub = [])"
| "includes_str (c # cs) sub = (take (length sub) (c # cs) = sub \<or> includes_str cs sub)"

text \<open>The decimal text a template literal produces for a non-negative integer.\<close>

definition digit_char :: "nat \<Rightarrow> char" where
  "digit_char d = char_of (48 + d)"

fun number_toString :: "nat \<Rightarrow> string" where
  "number_toString n =
     (if n < 10 then [digit_char n]
      else number_toString (n div 10) @ [digit_char (n mod 10)])"

declare number_toString.simps [simp del]

subsection \<open>Data\<close>

text \<open>An exception value: \<^verbatim>\<open>error.name\<close> and \<^verbatim>\<open>error.message\<close>.\<close>

record js_error =
  err_name :: string
  err_message :: string

text \<open>
  What the script reads of a \<^verbatim>\<open>Response\<close>: \<^verbatim>\<open>ok\<close>, \<^verbatim>\<open>status\<close>, \<^verbatim>\<open>statusText\<close>,
  \<^verbatim>\<open>headers.get('content-type')\<close> (\<open>None\<close> for \<^verbatim>\<open>null\<close>) and the settlement of
  \<^verbatim>\<open>text()\<close>, which is either a rejection or the body. The script reads \<^verbatim>\<open>ok\<close> as
  the browser reports it, so it is a field of its own and not computed from the
  status. Both promises are taken to settle: a body that never arrives is outside
  the model.
\<close>

record response =
  ok :: bool
  status :: nat
  statusText :: string
  header_content_type :: "string option"
  body_text :: "js_error + string"

datatype fetch_outcome = Rejected js_error | Resolved response

text \<open>
  The network: how \<^verbatim>\<open>fetch(url, ...)\<close> settles when the abort timer is armed with the
  given delay. The controller is local to the call, so an abort is a rejection with
  name \<^verbatim>\<open>AbortError\<close> and comes from that timer only.
\<close>

type_synonym network = "string \<Rightarrow> int \<Rightarrow> fetch_outcome"

record FetchResult =
  content :: string
  error :: "string option"

text \<open>The observable steps of one call, in program order.\<close>

datatype io_event = SetTimeout int | Fetch string | ClearTimeout | ReadText

subsection \<open>Content fetching\<close>

text \<open>\<^verbatim>\<open>response.headers.get('content-type') || ''\<close>: \<^verbatim>\<open>null\<close> and the empty string are falsy.\<close>

definition or_empty :: "string option \<Rightarrow> string" where
  "or_empty h = (case h of None \<Rightarrow> [] | Some v \<Rightarrow> if v = [] then [] else v)"

text \<open>The \<^verbatim>\<open>try\<close> block (lines 24 to 69). \<open>Inl\<close> is an exception leaving the block.\<close>

definition fetchUrlContent_try ::
    "network \<Rightarrow> string \<Rightarrow> int \<Rightarrow> (js_error + FetchResult) \<times> io_event list" where
  "fetchUrlContent_try net url tmo =
     (case net url tmo of
        Rejected e \<Rightarrow> (Inl e, [SetTimeout tmo, Fetch url])
      | Resolved resp \<Rightarrow>
          if \<not> ok resp then
            (Inr \<lparr>content = [],
                  error = Some (''HTTP '' @ number_toString (status resp) @ '': '' @ statusText resp)\<rparr>,
             [SetTimeout tmo, Fetch url, ClearTimeout])
          else
            (let contentType = or_empty (header_content_type resp) in
             if \<not> includes_str contentType ''text/html'' then
               (Inr \<lparr>content = [],
                     error = Some (''Unsupported content type: '' @ contentType)\<rparr>,
                [SetTimeout tmo, Fetch url, ClearTimeout])
             else
               (case body_text resp of
                  Inl e \<Rightarrow> (Inl e, [SetTimeout tmo, Fetch url, ClearTimeout, ReadText])
                | Inr html \<Rightarrow>
                    (Inr \<lparr>content = html, error = None\<rparr>,
                     [SetTimeout tmo, Fetch url, ClearTimeout, ReadText]))))"

text \<open>The \<^verbatim>\<open>catch\<close> block (lines 71 to 89).\<close>

definition fetchUrlContent_catch :: "js_error \<Rightarrow> FetchResult" where
  "fetchUrlContent_catch e =
     (let errorMessage =
        (if err_name e = ''AbortError'' then ''Request timeout''
         else if includes_str (err_message e) ''Failed to fetch'' then ''Network error or CORS blocked''
         else if includes_str (err_message e) ''TypeError'' then ''Invalid URL or network error''
         else err_message e)
      in \<lparr>content = [], error = Some errorMessage\<rparr>)"

text \<open>
  \<^verbatim>\<open>fetchUrlContent(url, timeout = CONTENT_TIMEOUT)\<close>. The timeout argument is \<open>None\<close>
  when the caller leaves it out. \<open>Inl\<close> in the result would be an exception that
  leaves the function (a rejected promise).
\<close>

definition effective_timeout :: "int option \<Rightarrow> int" where
  "effective_timeout timeout_arg = (case timeout_arg of None \<Rightarrow> CONTENT_TIMEOUT | Some t \<Rightarrow> t)"

definition fetchUrlContent ::
    "network \<Rightarrow> string \<Rightarrow> int option \<Rightarrow> (js_error + FetchResult) \<times> io_event list" where
  "fetchUrlContent net url timeout_arg =
     (case fetchUrlContent_try net url (effective_timeout timeout_arg) of
        (Inl e, evs) \<Rightarrow> (Inr (fetchUrlContent_catch e), evs)
      | (Inr r, evs) \<Rightarrow> (Inr r, evs))"

subsection \<open>Communication relay\<close>

text \<open>
  The \<^verbatim>\<open>timeout\<close> field of an inbound message: left out, \<^verbatim>\<open>null\<close>, \<^verbatim>\<open>NaN\<close> or an
  integer number of milliseconds. Fractional numbers are not represented.
\<close>

datatype js_timeout = Undefined | Null | NaN | Num int

record message =
  msg_action :: string
  msg_url :: string
  msg_timeout :: js_timeout

text \<open>\<^verbatim>\<open>message.timeout || CONTENT_TIMEOUT\<close>: the left operand when it is truthy.\<close>

fun truthy :: "js_timeout \<Rightarrow> bool" where
  "truthy Undefined = False"
| "truthy Null = False"
| "truthy NaN = False"
| "truthy (Num n) = (n \<noteq> 0)"

fun timeout_or_default :: "js_timeout \<Rightarrow> int" where
  "timeout_or_default (Num n) = (if truthy (Num n) then n else CONTENT_TIMEOUT)"
| "timeout_or_default v = CONTENT_TIMEOUT"

datatype payload = FetchPayload FetchResult | StatusPayload string

text \<open>
  What one run of the listener does: the value it returns, the payloads it hands to
  \<^verbatim>\<open>sendResponse\<close> before returning and those handed over later by the promise
  callbacks, the calls of \<^verbatim>\<open>fetchUrlContent\<close> with their arguments, and the steps
  of those calls.
\<close>

record handled =
  returned :: bool
  sync_responses :: "payload list"
  async_responses :: "payload list"
  fetch_calls :: "(string \<times> int option) list"
  io :: "io_event list"

definition relayed_actions :: "string list" where
  "relayed_actions = [''scrapingComplete'', ''scrapingError'', ''progressUpdate'', ''queryError'']"

text \<open>
  The listener of \<^verbatim>\<open>chrome.runtime.onMessage\<close> (lines 93 to 140). It runs in the
  script's global state, here the rate-limit map, and hands that state back.
  \<open>from_tab\<close> says whether \<^verbatim>\<open>sender.tab\<close> is set. The \<^verbatim>\<open>.catch\<close> callback answers a
  rejection of \<^verbatim>\<open>fetchUrlContent\<close> with \<^verbatim>\<open>error.message || 'Unknown error'\<close>.
\<close>

definition onMessage ::
    "network \<Rightarrow> (string, int) alist \<Rightarrow> message \<Rightarrow> bool \<Rightarrow> handled \<times> (string, int) alist" where
  "onMessage net urlFetchHistory m from_tab =
     (if msg_action m = ''fetchContent'' then
        (let arg = Some (timeout_or_default (msg_timeout m));
             (settled, evs) = fetchUrlContent net (msg_url m) arg;
             reply = (case settled of
                        Inr result \<Rightarrow> result
                      | Inl e \<Rightarrow> \<lparr>content = [],
                                  error = Some (if err_message e = [] then ''Unknown error''
                                                else err_message e)\<rparr>)
         in (\<lparr>returned = True, sync_responses = [], async_responses = [FetchPayload reply],
              fetch_calls = [(msg_url m, arg)], io = evs\<rparr>, urlFetchHistory))
      else if from_tab \<and> msg_action m \<in> set relayed_actions then
        (\<lparr>returned = False, sync_responses = [], async_responses = [],
          fetch_calls = [], io = []\<rparr>, urlFetchHistory)
      else if msg_action m = ''backgroundPing'' then
        (\<lparr>returned = True, sync_responses = [StatusPayload ''background active''],
          async_responses = [], fetch_calls = [], io = []\<rparr>, urlFetchHistory)
      else
        (\<lparr>returned = False, sync_responses = [], async_responses = [],
          fetch_calls = [], io = []\<rparr>, urlFetchHistory))"

subsection \<open>Rate limiting\<close>

text \<open>
  \<^verbatim>\<open>urlFetchHistory\<close> is a \<^verbatim>\<open>Map\<close> from host name to the time of the last permitted
  fetch: a list of entries in insertion order with distinct keys. \<^verbatim>\<open>get\<close>, \<^verbatim>\<open>set\<close> and
  \<^verbatim>\<open>delete\<close> are \<open>DAList.lookup\<close>, \<open>DAList.update\<close> and \<open>DAList.delete\<close>.
\<close>

text \<open>\<^verbatim>\<open>!lastFetch\<close>: true for \<^verbatim>\<open>undefined\<close> (no entry) and for the number 0.\<close>

definition not_js :: "int option \<Rightarrow> bool" where
  "not_js lastFetch = (case lastFetch of None \<Rightarrow> True | Some t \<Rightarrow> t = 0)"

text \<open>
  \<^verbatim>\<open>canFetchUrl(url)\<close> (lines 183 to 198). \<open>hostname\<close> is \<^verbatim>\<open>new URL(url).hostname\<close>,
  \<open>None\<close> when the constructor throws; \<open>now\<close> is \<^verbatim>\<open>Date.now()\<close>.
\<close>

definition canFetchUrl ::
    "(string \<Rightarrow> string option) \<Rightarrow> int \<Rightarrow> (string, int) alist \<Rightarrow> string
       \<Rightarrow> bool \<times> (string, int) alist" where
  "canFetchUrl hostname now urlFetchHistory url =
     (case hostname url of
        None \<Rightarrow> (True, urlFetchHistory)
      | Some domain \<Rightarrow>
          (let lastFetch = DAList.lookup urlFetchHistory domain in
           if not_js lastFetch \<or>
              (case lastFetch of Some t \<Rightarrow> now - t \<ge> RATE_LIMIT_MS | None \<Rightarrow> False)
           then (True, DAList.update domain now urlFetchHistory)
           else (False, urlFetchHistory)))"

text \<open>
  The cleanup callback (lines 201 to 210). The loop visits the entries the map holds
  when it starts; deleting the entry being visited does not disturb the iteration
  over the others.
\<close>

fun sweep_loop :: "int \<Rightarrow> (string \<times> int) list \<Rightarrow> (string, int) alist \<Rightarrow> (string, int) alist" where
  "sweep_loop cutoff [] urlFetchHistory = urlFetchHistory"
| "sweep_loop cutoff ((domain, timestamp) # rest) urlFetchHistory =
     sweep_loop cutoff rest
       (if timestamp < cutoff then DAList.delete domain urlFetchHistory else urlFetchHistory)"

definition sweep :: "int \<Rightarrow> (string, int) alist \<Rightarrow> (string, int) alist" where
  "sweep now urlFetchHistory =
     (let cutoff = now - (60 * 60 * 1000) in
      sweep_loop cutoff (DAList.impl_of urlFetchHistory) urlFetchHistory)"

text \<open>
  The host names of the addresses used in the examples below, as \<^verbatim>\<open>new URL\<close> gives
  them; the constructor throws on \<^verbatim>\<open>not a url\<close>.
\<close>

definition example_hostname :: "string \<Rightarrow> string option" where
  "example_hostname url =
     (if url = ''https://example.com/a'' then Some ''example.com''
      else if url = ''https://example.com/b?q=1'' then Some ''example.com''
      else if url = ''https://other.example/'' then Some ''other.example''
      else None)"

subsection \<open>Example inputs\<close>

text \<open>Settlements of \<^verbatim>\<open>fetch\<close> used in the examples: one network per behaviour.\<close>

definition net_json_404 :: network where
  "net_json_404 url tmo =
     Resolved \<lparr>ok = False, status = 404, statusText = ''Not Found'',
               header_content_type = Some ''application/json'', body_text = Inr ''{}''\<rparr>"

definition net_json_200 :: network where
  "net_json_200 url tmo =
     Resolved \<lparr>ok = True, status = 200, statusText = ''OK'',
               header_content_type = Some ''application/json'', body_text = Inr ''{}''\<rparr>"

definition net_untyped_200 :: network where
  "net_untyped_200 url tmo =
     Resolved \<lparr>ok = True, status = 200, statusText = ''OK'',
               header_content_type = None, body_text = Inr ''hello''\<rparr>"

definition net_html_200 :: network where
  "net_html_200 url tmo =
     Resolved \<lparr>ok = True, status = 200, statusText = ''OK'',
               header_content_type = Some ''text/html; charset=utf-8'',
               body_text = Inr ''<html></html>''\<rparr>"

text \<open>
  The rejection Chrome produces for an address it cannot parse: a \<^verbatim>\<open>TypeError\<close>
  whose message names the failure but holds neither \<^verbatim>\<open>Failed to fetch\<close> nor
  \<^verbatim>\<open>TypeError\<close>.
\<close>

definition net_bad_url :: network where
  "net_bad_url url tmo =
     Rejected \<lparr>err_name = ''TypeError'',
               err_message = ''Failed to execute 'fetch' on 'WorkerGlobalScope': Failed to parse URL from http://''\<rparr>"

definition msg_zero_timeout :: message where
  "msg_zero_timeout =
     \<lparr>msg_action = ''fetchContent'', msg_url = ''https://example.com/a'', msg_timeout = Num 0\<rparr>"

definition msg_short_timeout :: message where
  "msg_short_timeout =
     \<lparr>msg_action = ''fetchContent'', msg_url = ''https://example.com/a'', msg_timeout = Num 5000\<rparr>"

definition history_example :: "(string, int) alist" where
  "history_example =
     DAList.update ''other.example'' 1700003000000
       (DAList.update ''example.com'' 1700000000000 DAList.empty)"

definition history_after_first :: "(string, int) alist" where
  "history_after_first =
     snd (canFetchUrl example_hostname 1700000005000 DAList.empty ''https://example.com/a'')"

definition history_after_second :: "(string, int) alist" where
  "history_after_second =
     snd (canFetchUrl example_hostname 1700000005900 history_after_first ''https://example.com/a'')"

section \<open>Properties\<close>

subsection \<open>Helper facts\<close>

lemma includes_str_iff: "includes_str s sub \<longleftrightarrow> (\<exists>p q. s = p @ sub @ q)"
proof (induction s)
  case Nil
  then show ?case by auto
next
  case (Cons c cs)
  have "(\<exists>p q. c # cs = p @ sub @ q) \<longleftrightarrow>
        (\<exists>q. c # cs = sub @ q) \<or> (\<exists>p q. cs = p @ sub @ q)"
  proof
    assume "\<exists>p q. c # cs = p @ sub @ q"
    then obtain p q where pq: "c # cs = p @ sub @ q" by blast
    show "(\<exists>q. c # cs = sub @ q) \<or> (\<exists>p q. cs = p @ sub @ q)"
    proof (cases p)
      case Nil
      with pq show ?thesis by auto
    next
      case (Cons a p')
      with pq have "cs = p' @ sub @ q" by simp
      then show ?thesis by blast
    qed
  next
    assume "(\<exists>q. c # cs = sub @ q) \<or> (\<exists>p q. cs = p @ sub @ q)"
    then show "\<exists>p q. c # cs = p @ sub @ q"
    proof
      assume "\<exists>q. c # cs = sub @ q"
      then obtain q where "c # cs = [] @ sub @ q" by auto
      then show ?thesis by blast
    next
      assume "\<exists>p q. cs = p @ sub @ q"
      then obtain p q where "c # cs = (c # p) @ sub @ q" by auto
      then show ?thesis by blast
    qed
  qed
  moreover have "(\<exists>q. c # cs = sub @ q) \<longleftrightarrow> take (length sub) (c # cs) = sub"
    by (metis append_eq_conv_conj append_take_drop_id)
  ultimately show ?case using Cons.IH by simp
qed


lemma number_toString_404: "number_toString 404 = ''404''"
  by code_simp

lemma try_not_ok:
  "net url tmo = Resolved resp \<Longrightarrow> \<not> ok resp \<Longrightarrow>
   fetchUrlContent_try net url tmo =
     (Inr \<lparr>content = [],
           error = Some (''HTTP '' @ number_toString (status resp) @ '': '' @ statusText resp)\<rparr>,
      [SetTimeout tmo, Fetch url, ClearTimeout])"
  by (simp add: fetchUrlContent_try_def)

lemma try_unsupported:
  "net url tmo = Resolved resp \<Longrightarrow> ok resp \<Longrightarrow>
   \<not> includes_str (or_empty (header_content_type resp)) ''text/html'' \<Longrightarrow>
   fetchUrlContent_try net url tmo =
     (Inr \<lparr>content = [],
           error = Some (''Unsupported content type: '' @ or_empty (header_content_type resp))\<rparr>,
      [SetTimeout tmo, Fetch url, ClearTimeout])"
  by (simp add: fetchUrlContent_try_def Let_def)

lemma try_rejected:
  "net url tmo = Rejected e \<Longrightarrow>
   fetchUrlContent_try net url tmo = (Inl e, [SetTimeout tmo, Fetch url])"
  by (simp add: fetchUrlContent_try_def)

lemma try_error_empty_content:
  "fst (fetchUrlContent_try net url tmo) = Inr r \<Longrightarrow> error r \<noteq> None \<Longrightarrow> content r = []"
  by (auto simp: fetchUrlContent_try_def Let_def split: fetch_outcome.splits if_splits sum.splits)

lemma catch_content: "content (fetchUrlContent_catch e) = []"
  by (simp add: fetchUrlContent_catch_def Let_def)

text \<open>The result of the function is always a value: the \<^verbatim>\<open>catch\<close> block takes every exception.\<close>

lemma fetchUrlContent_returns: "\<exists>r. fst (fetchUrlContent net url timeout_arg) = Inr r"
  by (simp add: fetchUrlContent_def split: prod.splits sum.splits)

text \<open>How a rejection of \<^verbatim>\<open>fetch\<close> is reported, branch by branch of the \<^verbatim>\<open>catch\<close> block.\<close>

lemma fetch_rejection_mapped:
  assumes "net url (effective_timeout timeout_arg) = Rejected e"
  shows "fst (fetchUrlContent net url timeout_arg) =
           Inr \<lparr>content = [],
                error = Some
                  (if err_name e = ''AbortError'' then ''Request timeout''
                   else if includes_str (err_message e) ''Failed to fetch''
                     then ''Network error or CORS blocked''
                   else if includes_str (err_message e) ''TypeError''
                     then ''Invalid URL or network error''
                   else err_message e)\<rparr>"
  using try_rejected [of net url "effective_timeout timeout_arg" e] assms
  by (simp add: fetchUrlContent_def fetchUrlContent_catch_def)

lemma canFetchUrl_parsed:
  assumes "hostname url = Some domain"
  shows "canFetchUrl hostname now h url =
           (if DAList.lookup h domain = None \<or> DAList.lookup h domain = Some 0 \<or>
               (\<exists>t. DAList.lookup h domain = Some t \<and> now - t \<ge> 1000)
            then (True, DAList.update domain now h) else (False, h))"
  using assms
  by (cases "DAList.lookup h domain")
     (auto simp: canFetchUrl_def not_js_def RATE_LIMIT_MS_def Let_def)

text \<open>
  A clock that never reads 0 keeps 0 out of the map, so that \<^verbatim>\<open>!lastFetch\<close> holds for
  a missing entry only.
\<close>

lemma canFetchUrl_keeps_nonzero:
  assumes "now \<noteq> 0" and "\<forall>d. DAList.lookup h d \<noteq> Some 0"
  shows "DAList.lookup (snd (canFetchUrl hostname now h url)) d \<noteq> Some 0"
proof (cases "hostname url")
  case None
  then show ?thesis using assms(2) by (simp add: canFetchUrl_def)
next
  case (Some domain)
  show ?thesis
    using assms by (simp add: canFetchUrl_parsed [of hostname url domain, OF Some] lookup_update)
qed

lemma sweep_loop_lookup:
  "DAList.lookup (sweep_loop cutoff es h) d =
     (if \<exists>t. (d, t) \<in> set es \<and> t < cutoff then None else DAList.lookup h d)"
proof (induction es arbitrary: h)
  case Nil
  then show ?case by simp
next
  case (Cons e es)
  obtain k v where e: "e = (k, v)" by (cases e)
  show ?case unfolding e by (auto simp: Cons.IH)
qed

lemma impl_of_lookup: "(d, t) \<in> set (DAList.impl_of h) \<longleftrightarrow> DAList.lookup h d = Some t"
  by (simp add: lookup.rep_eq)

lemma sweep_lookup:
  "DAList.lookup (sweep now h) d =
     (case DAList.lookup h d of None \<Rightarrow> None
      | Some t \<Rightarrow> if t < now - 3600000 then None else Some t)"
  by (auto simp: sweep_def sweep_loop_lookup impl_of_lookup split: option.splits)

lemma sweep_keeps_nonzero:
  assumes "\<forall>d. DAList.lookup h d \<noteq> Some 0"
  shows "DAList.lookup (sweep now h) d \<noteq> Some 0"
  using assms by (auto simp: sweep_lookup split: option.splits if_splits)

subsection \<open>Content-type gate\<close>

text \<open>
  A response that is not OK is answered from its status before the content type is
  looked at: a 404 that declares \<^verbatim>\<open>application/json\<close> is reported as
  \<^verbatim>\<open>HTTP 404: Not Found\<close>, not as an unsupported content type.
\<close>

theorem unsupported_content_type_counterexample:
  "\<not> includes_str ''application/json'' ''text/html'' \<and>
   fetchUrlContent net_json_404 ''https://example.com/a'' None =
     (Inr \<lparr>content = [], error = Some ''HTTP 404: Not Found''\<rparr>,
      [SetTimeout 15000, Fetch ''https://example.com/a'', ClearTimeout]) \<and>
   ''HTTP 404: Not Found'' \<noteq> ''Unsupported content type: application/json''"
  by (simp add: fetchUrlContent_def fetchUrlContent_try_def net_json_404_def
      effective_timeout_def CONTENT_TIMEOUT_def number_toString_404)

text \<open>
  C1, for OK responses: when \<^verbatim>\<open>fetch\<close> resolves with an OK response whose content-type
  value (the empty string when the header is missing) does not contain
  \<^verbatim>\<open>text/html\<close>, \<^verbatim>\<open>fetchUrlContent\<close> returns empty content and the error
  \<^verbatim>\<open>Unsupported content type: <type>\<close>, and the body is not read.
\<close>

theorem unsupported_content_type:
  assumes "net url (effective_timeout timeout_arg) = Resolved resp"
    and "ok resp"
    and "\<not> includes_str (or_empty (header_content_type resp)) ''text/html''"
  shows "fst (fetchUrlContent net url timeout_arg) =
           Inr \<lparr>content = [],
                error = Some (''Unsupported content type: '' @ or_empty (header_content_type resp))\<rparr>
         \<and> ReadText \<notin> set (snd (fetchUrlContent net url timeout_arg))"
  using try_unsupported [of net url "effective_timeout timeout_arg" resp] assms
  by (simp add: fetchUrlContent_def)

theorem unsupported_content_type_witness:
  "fst (fetchUrlContent net_json_200 ''https://example.com/a'' None) =
     Inr \<lparr>content = [], error = Some ''Unsupported content type: application/json''\<rparr>
   \<and> ReadText \<notin> set (snd (fetchUrlContent net_json_200 ''https://example.com/a'' None))"
proof -
  let ?resp = "\<lparr>ok = True, status = 200, statusText = ''OK'',
                header_content_type = Some ''application/json'', body_text = Inr ''{}''\<rparr>"
  have a: "net_json_200 ''https://example.com/a'' (effective_timeout None) = Resolved ?resp"
    by (simp add: net_json_200_def)
  have b: "ok ?resp" by simp
  have c: "\<not> includes_str (or_empty (header_content_type ?resp)) ''text/html''"
    by (simp add: or_empty_def)
  show ?thesis
    using unsupported_content_type [of net_json_200 "''https://example.com/a''" None ?resp] a b c
    by (simp add: or_empty_def)
qed

subsection \<open>Rate limiter\<close>

text \<open>
  Only a permitted call records its time. From an empty map, a call at 5000 ms is
  permitted, a call 900 ms later is refused and leaves the map as it was, and a call
  200 ms after the refused one is permitted, the record being 1100 ms old by then.
\<close>

theorem rate_limit_two_calls_counterexample:
  "fst (canFetchUrl example_hostname 1700000005000 DAList.empty ''https://example.com/a'') = True \<and>
   fst (canFetchUrl example_hostname 1700000005900 history_after_first ''https://example.com/a'') = False \<and>
   fst (canFetchUrl example_hostname 1700000006100 history_after_second ''https://example.com/a'') = True \<and>
   (1700000006100::int) - 1700000005900 < RATE_LIMIT_MS"
proof -
  have h: "example_hostname ''https://example.com/a'' = Some ''example.com''"
    by (simp add: example_hostname_def)
  note p = canFetchUrl_parsed [of example_hostname "''https://example.com/a''" "''example.com''", OF h]
  have h1: "history_after_first = DAList.update ''example.com'' 1700000005000 DAList.empty"
    by (simp add: history_after_first_def p)
  have h2: "history_after_second = history_after_first"
    by (simp add: history_after_second_def p h1)
  show ?thesis
    by (simp add: p h2 h1 RATE_LIMIT_MS_def)
qed

text \<open>
  C2, with the interval counted from the last permitted call: for a URL whose host
  name parses, in a map that holds no timestamp 0 for that host,
  \<^verbatim>\<open>canFetchUrl\<close> returns true and records the current time for the host, over any
  earlier value, exactly when the host has no record or its record is at least
  1000 ms old; otherwise it returns false and the map is as before. After a call
  that returned true at a time other than 0, a call for the same host less than
  1000 ms later returns false and changes nothing, and a call 1000 ms later or more
  returns true and records its time.
\<close>

theorem canFetchUrl_gate:
  assumes "hostname url = Some domain"
    and "hostname url' = Some domain"
    and "DAList.lookup h domain \<noteq> Some 0"
    and "now \<noteq> 0"
  shows "canFetchUrl hostname now h url =
           (if DAList.lookup h domain = None \<or>
               (\<exists>t. DAList.lookup h domain = Some t \<and> now - t \<ge> 1000)
            then (True, DAList.update domain now h) else (False, h))
         \<and> (fst (canFetchUrl hostname now h url) \<longrightarrow>
              (\<forall>later.
                 canFetchUrl hostname later (snd (canFetchUrl hostname now h url)) url' =
                   (if later - now < 1000
                    then (False, snd (canFetchUrl hostname now h url))
                    else (True, DAList.update domain later (snd (canFetchUrl hostname now h url))))))"
proof -
  let ?grant = "DAList.lookup h domain = None \<or>
                (\<exists>t. DAList.lookup h domain = Some t \<and> now - t \<ge> 1000)"
  have first: "canFetchUrl hostname now h url =
                 (if ?grant then (True, DAList.update domain now h) else (False, h))"
    using assms(3) by (simp add: canFetchUrl_parsed [of hostname url domain, OF assms(1)])
  have second: "canFetchUrl hostname later (snd (canFetchUrl hostname now h url)) url' =
                  (if later - now < 1000
                   then (False, snd (canFetchUrl hostname now h url))
                   else (True, DAList.update domain later (snd (canFetchUrl hostname now h url))))"
    if "fst (canFetchUrl hostname now h url)" for later
  proof -
    have "snd (canFetchUrl hostname now h url) = DAList.update domain now h"
    proof (cases ?grant)
      case True
      with first show ?thesis by simp
    next
      case False
      with first have "\<not> fst (canFetchUrl hostname now h url)" by simp
      with that show ?thesis by simp
    qed
    then show ?thesis
      using assms(4) by (simp add: canFetchUrl_parsed [of hostname url' domain, OF assms(2)])
  qed
  show ?thesis using first second by blast
qed

theorem canFetchUrl_gate_witness:
  "canFetchUrl example_hostname 1700000005000 DAList.empty ''https://example.com/a'' =
     (True, DAList.update ''example.com'' 1700000005000 DAList.empty) \<and>
   canFetchUrl example_hostname 1700000005900 history_after_first ''https://example.com/b?q=1'' =
     (False, history_after_first) \<and>
   canFetchUrl example_hostname 1700000006000 history_after_first ''https://example.com/b?q=1'' =
     (True, DAList.update ''example.com'' 1700000006000 history_after_first)"
proof -
  have a: "example_hostname ''https://example.com/a'' = Some ''example.com''"
    by (simp add: example_hostname_def)
  have b: "example_hostname ''https://example.com/b?q=1'' = Some ''example.com''"
    by (simp add: example_hostname_def)
  have c: "DAList.lookup DAList.empty ''example.com'' \<noteq> Some (0::int)" by simp
  have d: "(1700000005000::int) \<noteq> 0" by simp
  note g = canFetchUrl_gate [of example_hostname "''https://example.com/a''" "''example.com''"
      "''https://example.com/b?q=1''" DAList.empty 1700000005000, OF a b c d]
  from g have first:
    "canFetchUrl example_hostname 1700000005000 DAList.empty ''https://example.com/a'' =
       (True, DAList.update ''example.com'' 1700000005000 DAList.empty)"
    by simp
  from g first have later:
    "canFetchUrl example_hostname later history_after_first ''https://example.com/b?q=1'' =
       (if later - 1700000005000 < 1000 then (False, history_after_first)
        else (True, DAList.update ''example.com'' later history_after_first))" for later
    unfolding history_after_first_def by simp
  show ?thesis using first later [of 1700000005900] later [of 1700000006000] by simp
qed

subsection \<open>Shape of the result\<close>

text \<open>
  C3: every call of \<^verbatim>\<open>fetchUrlContent\<close> returns a result, and in that result a
  non-null error comes with empty content.
\<close>

theorem error_implies_empty_content:
  "\<exists>r. fst (fetchUrlContent net url timeout_arg) = Inr r \<and> (error r \<noteq> None \<longrightarrow> content r = [])"
proof -
  obtain x evs where tr: "fetchUrlContent_try net url (effective_timeout timeout_arg) = (x, evs)"
    by (cases "fetchUrlContent_try net url (effective_timeout timeout_arg)")
  show ?thesis
  proof (cases x)
    case (Inl e)
    with tr have "fst (fetchUrlContent net url timeout_arg) = Inr (fetchUrlContent_catch e)"
      by (simp add: fetchUrlContent_def)
    then show ?thesis by (simp add: catch_content)
  next
    case (Inr r)
    with tr have "fst (fetchUrlContent net url timeout_arg) = Inr r"
      by (simp add: fetchUrlContent_def)
    moreover have "error r \<noteq> None \<longrightarrow> content r = []"
      using try_error_empty_content [of net url "effective_timeout timeout_arg" r] tr Inr by simp
    ultimately show ?thesis by simp
  qed
qed

theorem error_implies_empty_content_witness:
  "\<exists>r. fst (fetchUrlContent net_json_404 ''https://example.com/a'' None) = Inr r \<and>
       error r \<noteq> None \<and> content r = []"
  using error_implies_empty_content [of net_json_404 "''https://example.com/a''" None]
  by (auto simp: fetchUrlContent_def fetchUrlContent_try_def net_json_404_def)

subsection \<open>HTTP status\<close>

text \<open>
  C4: when \<^verbatim>\<open>fetch\<close> resolves with a response that is not OK, \<^verbatim>\<open>fetchUrlContent\<close>
  returns empty content and the error \<^verbatim>\<open>HTTP <status>: <statusText>\<close>. A 404
  response with status text \<^verbatim>\<open>Not Found\<close> is reported as \<^verbatim>\<open>HTTP 404: Not Found\<close>.
\<close>

theorem http_error_status:
  assumes "net url (effective_timeout timeout_arg) = Resolved resp"
    and "\<not> ok resp"
  shows "fst (fetchUrlContent net url timeout_arg) =
           Inr \<lparr>content = [],
                error = Some (''HTTP '' @ number_toString (status resp) @ '': '' @ statusText resp)\<rparr>"
  using try_not_ok [of net url "effective_timeout timeout_arg" resp] assms
  by (simp add: fetchUrlContent_def)

theorem http_error_status_witness:
  "fst (fetchUrlContent net_json_404 ''https://example.com/a'' None) =
     Inr \<lparr>content = [], error = Some ''HTTP 404: Not Found''\<rparr>"
proof -
  let ?resp = "\<lparr>ok = False, status = 404, statusText = ''Not Found'',
               header_content_type = Some ''application/json'', body_text = Inr ''{}''\<rparr>"
  have a: "net_json_404 ''https://example.com/a'' (effective_timeout None) = Resolved ?resp"
    by (simp add: net_json_404_def)
  have b: "\<not> ok ?resp" by simp
  show ?thesis
    using http_error_status [of net_json_404 "''https://example.com/a''" None ?resp] a b
    by (simp add: number_toString_404)
qed

subsection \<open>Failures of the request\<close>

text \<open>
  C5 at a malformed address: \<^verbatim>\<open>fetch('http://')\<close> rejects with a \<^verbatim>\<open>TypeError\<close>. The
  \<^verbatim>\<open>catch\<close> block looks for the text \<^verbatim>\<open>TypeError\<close> in the message, where the name
  of the error is not written, so the message is returned as it is and not as
  \<^verbatim>\<open>Invalid URL or network error\<close>.
\<close>

theorem malformed_url_message_passes_through:
  "fetchUrlContent net_bad_url ''http://'' None =
     (Inr \<lparr>content = [],
           error = Some ''Failed to execute 'fetch' on 'WorkerGlobalScope': Failed to parse URL from http://''\<rparr>,
      [SetTimeout 15000, Fetch ''http://''])"
  by (simp add: fetchUrlContent_def fetchUrlContent_try_def fetchUrlContent_catch_def
      net_bad_url_def effective_timeout_def CONTENT_TIMEOUT_def)

subsection \<open>Relay\<close>

text \<open>
  A \<^verbatim>\<open>fetchContent\<close> message whose timeout is 0 carries a timeout, yet
  \<^verbatim>\<open>fetchUrlContent\<close> is called with 15000 and not with 0.
\<close>

theorem relay_timeout_counterexample:
  "msg_action msg_zero_timeout = ''fetchContent'' \<and>
   msg_timeout msg_zero_timeout = Num 0 \<and>
   fetch_calls (fst (onMessage net_html_200 DAList.empty msg_zero_timeout False)) =
     [(''https://example.com/a'', Some 15000)] \<and>
   fetch_calls (fst (onMessage net_html_200 DAList.empty msg_zero_timeout False)) \<noteq>
     [(''https://example.com/a'', Some 0)]"
  by (simp add: onMessage_def msg_zero_timeout_def CONTENT_TIMEOUT_def Let_def split: prod.splits)

text \<open>
  C6, with the timeout as the code selects it: for a message whose action is
  \<^verbatim>\<open>fetchContent\<close> the listener calls \<^verbatim>\<open>fetchUrlContent\<close> once, with the URL of the
  message and with its timeout when that is a number other than 0, with 15000 when
  the timeout is left out, \<^verbatim>\<open>null\<close>, \<^verbatim>\<open>NaN\<close> or 0. It answers nothing before it
  returns, returns true, and the result of the call is answered later. The
  rate-limit map is handed back as it was, and what the listener does is the same
  for every content of the map.
\<close>

theorem relay_fetchContent:
  assumes "msg_action m = ''fetchContent''"
  shows "\<exists>result evs.
           fetchUrlContent net (msg_url m)
             (Some (case msg_timeout m of
                      Num n \<Rightarrow> if n = 0 then CONTENT_TIMEOUT else n
                    | _ \<Rightarrow> CONTENT_TIMEOUT)) = (Inr result, evs) \<and>
           fst (onMessage net urlFetchHistory m from_tab) =
             \<lparr>returned = True, sync_responses = [], async_responses = [FetchPayload result],
              fetch_calls = [(msg_url m,
                 Some (case msg_timeout m of
                         Num n \<Rightarrow> if n = 0 then CONTENT_TIMEOUT else n
                       | _ \<Rightarrow> CONTENT_TIMEOUT))],
              io = evs\<rparr> \<and>
           snd (onMessage net urlFetchHistory m from_tab) = urlFetchHistory \<and>
           (\<forall>other. fst (onMessage net other m from_tab) =
                    fst (onMessage net urlFetchHistory m from_tab))"
proof -
  let ?t = "case msg_timeout m of Num n \<Rightarrow> if n = 0 then CONTENT_TIMEOUT else n
            | _ \<Rightarrow> CONTENT_TIMEOUT"
  have t: "timeout_or_default (msg_timeout m) = ?t"
    by (cases "msg_timeout m") simp_all
  obtain result evs where f: "fetchUrlContent net (msg_url m) (Some ?t) = (Inr result, evs)"
    using fetchUrlContent_returns [of net "msg_url m" "Some ?t"]
    by (cases "fetchUrlContent net (msg_url m) (Some ?t)") auto
  have "fst (onMessage net h m from_tab) =
          \<lparr>returned = True, sync_responses = [], async_responses = [FetchPayload result],
           fetch_calls = [(msg_url m, Some ?t)], io = evs\<rparr>" for h
    using assms f by (simp add: onMessage_def t)
  moreover have "snd (onMessage net urlFetchHistory m from_tab) = urlFetchHistory"
    using assms by (simp add: onMessage_def Let_def split: prod.splits)
  ultimately show ?thesis using f by auto
qed

theorem relay_fetchContent_witness:
  "fst (onMessage net_html_200 history_example msg_short_timeout True) =
     \<lparr>returned = True, sync_responses = [],
      async_responses = [FetchPayload \<lparr>content = ''<html></html>'', error = None\<rparr>],
      fetch_calls = [(''https://example.com/a'', Some 5000)],
      io = [SetTimeout 5000, Fetch ''https://example.com/a'', ClearTimeout, ReadText]\<rparr> \<and>
   snd (onMessage net_html_200 history_example msg_short_timeout True) = history_example"
proof -
  have a: "msg_action msg_short_timeout = ''fetchContent''"
    by (simp add: msg_short_timeout_def)
  have f: "fetchUrlContent net_html_200 ''https://example.com/a'' (Some 5000) =
             (Inr \<lparr>content = ''<html></html>'', error = None\<rparr>,
              [SetTimeout 5000, Fetch ''https://example.com/a'', ClearTimeout, ReadText])"
    by (simp add: fetchUrlContent_def fetchUrlContent_try_def net_html_200_def
        effective_timeout_def or_empty_def)
  show ?thesis
    using relay_fetchContent [of msg_short_timeout net_html_200 history_example True] a f
    by (auto simp: msg_short_timeout_def)
qed

subsection \<open>Sweep\<close>

text \<open>
  C7: after one run of the sweep at time \<open>now\<close>, every host whose recorded time is
  below \<open>now - 3600000\<close> has no entry, every host whose recorded time is not below it
  keeps that time, and no host gains an entry.
\<close>

theorem sweep_removes_old_keeps_recent:
  "(\<forall>domain t. DAList.lookup h domain = Some t \<and> t < now - 3600000 \<longrightarrow>
       DAList.lookup (sweep now h) domain = None) \<and>
   (\<forall>domain t. DAList.lookup h domain = Some t \<and> \<not> t < now - 3600000 \<longrightarrow>
       DAList.lookup (sweep now h) domain = Some t) \<and>
   (\<forall>domain. DAList.lookup h domain = None \<longrightarrow> DAList.lookup (sweep now h) domain = None)"
  by (simp add: sweep_lookup)

theorem sweep_removes_old_keeps_recent_witness:
  "DAList.lookup history_example ''example.com'' = Some 1700000000000 \<and>
   DAList.lookup (sweep 1700003700000 history_example) ''example.com'' = None \<and>
   DAList.lookup history_example ''other.example'' = Some 1700003000000 \<and>
   DAList.lookup (sweep 1700003700000 history_example) ''other.example'' = Some 1700003000000"
proof -
  have a: "DAList.lookup history_example ''example.com'' = Some 1700000000000"
    by (simp add: history_example_def)
  have b: "DAList.lookup history_example ''other.example'' = Some 1700003000000"
    by (simp add: history_example_def)
  show ?thesis
    using sweep_removes_old_keeps_recent [of history_example 1700003700000] a b by simp
qed

subsection \<open>Fail-open\<close>

text \<open>
  C8: when \<^verbatim>\<open>new URL(url)\<close> throws, \<^verbatim>\<open>canFetchUrl\<close> returns true and the map is as
  before, as for the input \<^verbatim>\<open>not a url\<close>.
\<close>

theorem canFetchUrl_fail_open:
  assumes "hostname url = None"
  shows "canFetchUrl hostname now h url = (True, h)"
  using assms by (simp add: canFetchUrl_def)

theorem canFetchUrl_fail_open_witness:
  "canFetchUrl example_hostname 1700000005000 history_example ''not a url'' = (True, history_example)"
proof -
  have "example_hostname ''not a url'' = None" by (simp add: example_hostname_def)
  then show ?thesis by (rule canFetchUrl_fail_open)
qed

subsection \<open>Falsy timeouts\<close>

text \<open>
  C9: for a \<^verbatim>\<open>fetchContent\<close> message whose timeout is 0, \<^verbatim>\<open>null\<close>, \<^verbatim>\<open>NaN\<close> or left
  out, the listener calls \<^verbatim>\<open>fetchUrlContent\<close> with the timeout 15000, and the answer
  is the result of that call.
\<close>

theorem relay_falsy_timeout:
  assumes "msg_action m = ''fetchContent''"
    and "msg_timeout m = Num 0 \<or> msg_timeout m = Null \<or> msg_timeout m = NaN
         \<or> msg_timeout m = Undefined"
  shows "\<exists>result evs.
           fetchUrlContent net (msg_url m) (Some 15000) = (Inr result, evs) \<and>
           fetch_calls (fst (onMessage net urlFetchHistory m from_tab)) =
             [(msg_url m, Some 15000)] \<and>
           async_responses (fst (onMessage net urlFetchHistory m from_tab)) =
             [FetchPayload result]"
proof -
  have t: "timeout_or_default (msg_timeout m) = 15000"
    using assms(2) by (auto simp: CONTENT_TIMEOUT_def)
  obtain result evs where f: "fetchUrlContent net (msg_url m) (Some 15000) = (Inr result, evs)"
    using fetchUrlContent_returns [of net "msg_url m" "Some 15000"]
    by (cases "fetchUrlContent net (msg_url m) (Some 15000)") auto
  show ?thesis using assms(1) f by (simp add: onMessage_def t)
qed

theorem relay_falsy_timeout_witness:
  "fetch_calls (fst (onMessage net_html_200 DAList.empty msg_zero_timeout False)) =
     [(''https://example.com/a'', Some 15000)] \<and>
   async_responses (fst (onMessage net_html_200 DAList.empty msg_zero_timeout False)) =
     [FetchPayload \<lparr>content = ''<html></html>'', error = None\<rparr>]"
proof -
  have a: "msg_action msg_zero_timeout = ''fetchContent''"
    by (simp add: msg_zero_timeout_def)
  have b: "msg_timeout msg_zero_timeout = Num 0 \<or> msg_timeout msg_zero_timeout = Null \<or>
           msg_timeout msg_zero_timeout = NaN \<or> msg_timeout msg_zero_timeout = Undefined"
    by (simp add: msg_zero_timeout_def)
  have f: "fetchUrlContent net_html_200 ''https://example.com/a'' (Some 15000) =
             (Inr \<lparr>content = ''<html></html>'', error = None\<rparr>,
              [SetTimeout 15000, Fetch ''https://example.com/a'', ClearTimeout, ReadText])"
    by (simp add: fetchUrlContent_def fetchUrlContent_try_def net_html_200_def
        effective_timeout_def or_empty_def)
  show ?thesis
    using relay_falsy_timeout [of msg_zero_timeout net_html_200 DAList.empty False] a b f
    by (simp add: msg_zero_timeout_def)
qed

subsection \<open>Missing content-type header\<close>

text \<open>
  C10: when \<^verbatim>\<open>fetch\<close> resolves with an OK response that has no content-type header,
  \<^verbatim>\<open>fetchUrlContent\<close> returns empty content and the error
  \<^verbatim>\<open>Unsupported content type: \<close> with nothing after the colon and space, and the body
  is not read.
\<close>

theorem missing_content_type:
  assumes "net url (effective_timeout timeout_arg) = Resolved resp"
    and "ok resp"
    and "header_content_type resp = None"
  shows "fst (fetchUrlContent net url timeout_arg) =
           Inr \<lparr>content = [], error = Some ''Unsupported content type: ''\<rparr>
         \<and> ReadText \<notin> set (snd (fetchUrlContent net url timeout_arg))"
proof -
  have "or_empty (header_content_type resp) = []"
    using assms(3) by (simp add: or_empty_def)
  moreover have "\<not> includes_str [] ''text/html''" by simp
  ultimately show ?thesis
    using try_unsupported [of net url "effective_timeout timeout_arg" resp] assms(1,2)
    by (simp add: fetchUrlContent_def)
qed

theorem missing_content_type_witness:
  "fst (fetchUrlContent net_untyped_200 ''https://example.com/a'' (Some 5000)) =
     Inr \<lparr>content = [], error = Some ''Unsupported content type: ''\<rparr>
   \<and> ReadText \<notin> set (snd (fetchUrlContent net_untyped_200 ''https://example.com/a'' (Some 5000)))"
proof -
  let ?resp = "\<lparr>ok = True, status = 200, statusText = ''OK'',
                header_content_type = None, body_text = Inr ''hello''\<rparr>"
  have a: "net_untyped_200 ''https://example.com/a'' (effective_timeout (Some 5000)) = Resolved ?resp"
    by (simp add: net_untyped_200_def)
  have b: "ok ?resp" by simp
  have c: "header_content_type ?resp = None" by simp
  show ?thesis
    using missing_content_type [of net_untyped_200 "''https://example.com/a''" "Some 5000" ?resp] a b c
    by simp
qed

end
